theory Spec2Isabelle
  imports Complex_Main "HOL-Library.Multiset" "HOL-Library.AList" "HOL-Library.List_Lexorder"
begin

section \<open>Python values\<close>

text \<open>
  A Python \<open>str\<close> is a sequence of Unicode code points; slicing (\<open>s[:50]\<close>),
  \<open>replace\<close> and comparison all work on code points. The literals of \<open>main.py\<close>
  contain code points above 255, so a string is modelled as the list of its code
  points. \<open>ascii\<close> embeds an ASCII literal.
\<close>

type_synonym pystr = "nat list"

definition ascii :: "string \<Rightarrow> pystr" where
  "ascii s = map of_char s"

text \<open>U+2705, U+274C and U+26A0 U+FE0F, the three marks used by \<open>test_database\<close>.\<close>

definition check_mark :: pystr where
  "check_mark = [0x2705]"

definition cross_mark :: pystr where
  "cross_mark = [0x274C]"

definition warning_sign :: pystr where
  "warning_sign = [0x26A0, 0xFE0F]"

text \<open>
  The values that occur in the documents and responses of this program. A \<open>float\<close> is
  modelled by the rational it denotes (NaN and the infinities are left out), a naive
  \<open>datetime\<close> by the number of microseconds since \<open>datetime.min\<close>, so that
  \<open>datetime.min\<close> is \<open>VDatetime 0\<close> and the order of naive datetimes is the order of
  these numbers, and an \<open>ObjectId\<close> by its hexadecimal string, which is what \<open>str\<close>
  returns for it.
\<close>

datatype pyval =
    VNone
  | VStr pystr
  | VFloat rat
  | VDatetime nat
  | VObjectId pystr

text \<open>
  A \<open>dict\<close> with string keys, in insertion order: \<open>map_of d k\<close> is \<open>d.get(k)\<close>,
  \<open>AList.update k v d\<close> is \<open>d[k] = v\<close> (in place when the key exists, appended
  otherwise) and \<open>AList.delete k d\<close> removes the key.
\<close>

type_synonym document = "(pystr \<times> pyval) list"

datatype error =
    HTTPException nat pystr
  | RequestValidationError
  | ValidationError
  | TypeError
  | PyException pystr
  | OSError pystr

text \<open>
  The status the framework answers with: the code of an \<open>HTTPException\<close>, 422 when
  the framework itself refuses the parameters of a request
  (\<open>RequestValidationError\<close>), 500 for any other exception that leaves a handler,
  200 for a returned value.
\<close>

fun status_code :: "error + 'a \<Rightarrow> nat" where
  "status_code (Inr _) = 200"
| "status_code (Inl (HTTPException c _)) = c"
| "status_code (Inl RequestValidationError) = 422"
| "status_code (Inl _) = 500"

text \<open>
  \<open>str(v)\<close>. The text of a float and of a datetime is not modelled; it is taken from
  the parameter \<open>str_other\<close>.
\<close>

fun py_str :: "(pyval \<Rightarrow> pystr) \<Rightarrow> pyval \<Rightarrow> pystr" where
  "py_str str_other VNone = ascii ''None''"
| "py_str str_other (VStr s) = s"
| "py_str str_other (VObjectId h) = h"
| "py_str str_other v = str_other v"

text \<open>
  \<open>a < b\<close>. Values of the same kind are ordered (strings and ObjectIds
  lexicographically); \<open>None\<close> and values of different kinds raise \<open>TypeError\<close>.
\<close>

fun py_lt :: "pyval \<Rightarrow> pyval \<Rightarrow> error + bool" where
  "py_lt (VStr a) (VStr b) = Inr (a < b)"
| "py_lt (VFloat a) (VFloat b) = Inr (a < b)"
| "py_lt (VDatetime a) (VDatetime b) = Inr (a < b)"
| "py_lt (VObjectId a) (VObjectId b) = Inr (a < b)"
| "py_lt _ _ = Inl TypeError"

text \<open>The decimal text of an \<open>int\<close>, as \<open>str\<close> and an f-string produce it.\<close>

function dec_nat :: "nat \<Rightarrow> pystr" where
  "dec_nat n = (if n < 10 then [48 + n] else dec_nat (n div 10) @ [48 + n mod 10])"
  by pat_completeness auto
termination
  by (relation "measure id") auto

declare dec_nat.simps [simp del]

definition py_str_int :: "int \<Rightarrow> pystr" where
  "py_str_int i = (if i < 0 then ascii ''-'' @ dec_nat (nat (- i)) else dec_nat (nat i))"

section \<open>The request models and the document store\<close>

text \<open>
  \<open>SongCreate\<close> (main.py) and \<open>Song\<close> (schemas.py) declare the same six fields:
  \<open>title: str\<close> and \<open>artist: str\<close> are required, the other four are \<open>Optional\<close>.
  A value of the record is a request that has passed the type check of the
  framework; the field types put no constraint on the text of \<open>title\<close> and \<open>artist\<close>.
\<close>

record song_fields =
  title :: pystr
  artist :: pystr
  album :: "pystr option"
  coverUrl :: "pystr option"
  audioUrl :: "pystr option"
  duration :: "rat option"

text \<open>
  \<open>SongCreate\<close> declares \<open>duration: Optional[float] = None\<close> and nothing more, so
  building one never fails. \<open>Song\<close> declares \<open>Field(None, ge=0)\<close>: a duration that is
  given must be at least 0.
\<close>

definition SongCreate :: "song_fields \<Rightarrow> error + song_fields" where
  "SongCreate f = Inr f"

definition Song :: "song_fields \<Rightarrow> error + song_fields" where
  "Song f =
     (case duration f of
        None \<Rightarrow> Inr f
      | Some x \<Rightarrow> if 0 \<le> x then Inr f else Inl ValidationError)"

text \<open>
  The module \<open>database\<close> (\<open>db\<close>, \<open>create_document\<close>, \<open>get_documents\<close>) is not part of
  the sources. Its two operations are parameters of the handlers: over a store state
  \<open>'s\<close>, \<open>create_document\<close> takes the collection name and the model and either raises or
  returns the new identifier with the new state, and \<open>get_documents\<close> takes the
  collection name and a filter and either raises or returns the documents.
\<close>

record 's store_ops =
  create_document :: "pystr \<Rightarrow> song_fields \<Rightarrow> 's \<Rightarrow> (error + pystr) \<times> 's"
  get_documents :: "pystr \<Rightarrow> document \<Rightarrow> 's \<Rightarrow> error + document list"

section \<open>GET /songs\<close>

text \<open>\<open>d["id"] = str(d.pop("_id", ""))\<close>\<close>

definition project_id :: "(pyval \<Rightarrow> pystr) \<Rightarrow> document \<Rightarrow> document" where
  "project_id str_other d =
     AList.update (ascii ''id'')
       (VStr (py_str str_other
          (case map_of d (ascii ''_id'') of None \<Rightarrow> VStr [] | Some v \<Rightarrow> v)))
       (AList.delete (ascii ''_id'') d)"

text \<open>\<open>lambda x: x.get("created_at", datetime.min)\<close>\<close>

definition sort_key :: "document \<Rightarrow> pyval" where
  "sort_key x = (case map_of x (ascii ''created_at'') of None \<Rightarrow> VDatetime 0 | Some v \<Rightarrow> v)"

text \<open>
  \<open>out.sort(key=..., reverse=True)\<close>. Python's sort is stable, also with
  \<open>reverse=True\<close>: records with equal keys keep their order. It is modelled by the
  stable insertion sort that puts each record behind the records whose key is not
  smaller; a comparison that raises ends the sort with that exception. Whenever no
  comparison raises, every stable sort returns the same list.
\<close>

fun insert_desc :: "document \<Rightarrow> document list \<Rightarrow> error + document list" where
  "insert_desc x [] = Inr [x]"
| "insert_desc x (y # ys) =
     (case py_lt (sort_key y) (sort_key x) of
        Inl e \<Rightarrow> Inl e
      | Inr True \<Rightarrow> Inr (x # y # ys)
      | Inr False \<Rightarrow>
          (case insert_desc x ys of
             Inl e \<Rightarrow> Inl e
           | Inr zs \<Rightarrow> Inr (y # zs)))"

fun sort_desc_from :: "document list \<Rightarrow> document list \<Rightarrow> error + document list" where
  "sort_desc_from acc [] = Inr acc"
| "sort_desc_from acc (x # xs) =
     (case insert_desc x acc of
        Inl e \<Rightarrow> Inl e
      | Inr acc' \<Rightarrow> sort_desc_from acc' xs)"

definition sort_reverse :: "document list \<Rightarrow> error + document list" where
  "sort_reverse xs = sort_desc_from [] xs"

definition list_songs ::
  "(pyval \<Rightarrow> pystr) \<Rightarrow> 's store_ops \<Rightarrow> 's \<Rightarrow> error + document list" where
  "list_songs str_other D s =
     (case get_documents D (ascii ''song'') [] s of
        Inl e \<Rightarrow> Inl e
      | Inr docs \<Rightarrow> sort_reverse (map (project_id str_other) docs))"

section \<open>POST /songs\<close>

text \<open>\<open>not song.audioUrl\<close> holds for \<open>None\<close> and for the empty string.\<close>

fun truthy :: "pystr option \<Rightarrow> bool" where
  "truthy None = False"
| "truthy (Some s) = (s \<noteq> [])"

definition audio_required :: pystr where
  "audio_required = ascii ''audioUrl is required when not uploading a file.''"

definition create_song ::
  "'s store_ops \<Rightarrow> song_fields \<Rightarrow> 's \<Rightarrow> (error + document) \<times> 's" where
  "create_song D song s =
     (if \<not> truthy (audioUrl song) then (Inl (HTTPException 400 audio_required), s)
      else
        (case create_document D (ascii ''song'') song s of
           (Inl e, s') \<Rightarrow> (Inl e, s')
         | (Inr new_id, s') \<Rightarrow> (Inr [(ascii ''id'', VStr new_id)], s')))"

section \<open>POST /songs/upload\<close>

text \<open>
  What the handler reads and writes besides the store: the files (a path and the bytes
  written there), the paths whose \<open>open(path, "wb")\<close> raises, and the clock.
  \<open>unix_micros n\<close> is the Unix time, in microseconds, at the \<open>n\<close>-th reading of
  the clock and \<open>utcoffset\<close> is the offset of the server's local time zone from UTC,
  in seconds (east positive).
\<close>

type_synonym bytes = "nat list"

record 's world =
  store :: 's
  files :: "(pystr \<times> bytes) list"
  unwritable :: "pystr \<Rightarrow> bool"
  unix_micros :: "nat \<Rightarrow> int"
  clock_reads :: nat
  utcoffset :: int

record upload_file =
  filename :: pystr
  content :: bytes

text \<open>\<open>int(x)\<close> of a float given in microseconds: truncation towards zero.\<close>

definition int_of_micros :: "int \<Rightarrow> int" where
  "int_of_micros m = (if 0 \<le> m then m div 1000000 else - ((- m) div 1000000))"

text \<open>
  \<open>int(datetime.utcnow().timestamp())\<close>. \<open>utcnow()\<close> returns the UTC wall-clock time
  as a naive datetime, and \<open>timestamp()\<close> of a naive datetime reads it as local time:
  the result is the Unix time less the local offset. (The rounding of the float is not
  modelled.) \<open>timestamp_at w n\<close> is the value at the \<open>n\<close>-th reading of the clock.
\<close>

definition timestamp_at :: "'s world \<Rightarrow> nat \<Rightarrow> int" where
  "timestamp_at w n = int_of_micros (unix_micros w n - utcoffset w * 1000000)"

definition utcnow_timestamp :: "'s world \<Rightarrow> int \<times> 's world" where
  "utcnow_timestamp w =
     (timestamp_at w (clock_reads w), w\<lparr>clock_reads := clock_reads w + 1\<rparr>)"

text \<open>\<open>name.replace(' ', '_')\<close>\<close>

definition replace_spaces :: "pystr \<Rightarrow> pystr" where
  "replace_spaces name = map (\<lambda>c. if c = 32 then 95 else c) name"

text \<open>\<open>os.path.join(a, b)\<close> on POSIX.\<close>

definition os_path_join :: "pystr \<Rightarrow> pystr \<Rightarrow> pystr" where
  "os_path_join a b =
     (if b \<noteq> [] \<and> hd b = 47 then b
      else if a = [] \<or> last a = 47 then a @ b
      else a @ [47] @ b)"

definition UPLOAD_DIR :: "pystr \<Rightarrow> pystr" where
  "UPLOAD_DIR cwd = os_path_join cwd (ascii ''uploads'')"

definition AUDIO_DIR :: "pystr \<Rightarrow> pystr" where
  "AUDIO_DIR cwd = os_path_join (UPLOAD_DIR cwd) (ascii ''audio'')"

definition COVER_DIR :: "pystr \<Rightarrow> pystr" where
  "COVER_DIR cwd = os_path_join (UPLOAD_DIR cwd) (ascii ''covers'')"

text \<open>\<open>with open(path, "wb") as f: f.write(data)\<close>\<close>

definition write_file :: "pystr \<Rightarrow> bytes \<Rightarrow> 's world \<Rightarrow> (error + unit) \<times> 's world" where
  "write_file path data w =
     (if unwritable w path then (Inl (OSError path), w)
      else (Inr (), w\<lparr>files := AList.update path data (files w)\<rparr>))"

text \<open>\<open>f"{int(datetime.utcnow().timestamp())}_{file.filename.replace(' ', '_')}"\<close>\<close>

definition safe_name :: "int \<Rightarrow> upload_file \<Rightarrow> pystr" where
  "safe_name ts file = py_str_int ts @ ascii ''_'' @ replace_spaces (filename file)"

text \<open>Lines 118 to 124: the cover, when there is one. The result is \<open>cover_url\<close>.\<close>

definition save_cover ::
  "pystr \<Rightarrow> upload_file option \<Rightarrow> 's world \<Rightarrow> (error + pystr option) \<times> 's world" where
  "save_cover cwd cover w =
     (case cover of
        None \<Rightarrow> (Inr None, w)
      | Some c \<Rightarrow>
          (let (ts, w1) = utcnow_timestamp w;
               safe_cover_name = safe_name ts c;
               cover_path = os_path_join (COVER_DIR cwd) safe_cover_name
           in case write_file cover_path (content c) w1 of
                (Inl e, w2) \<Rightarrow> (Inl e, w2)
              | (Inr _, w2) \<Rightarrow> (Inr (Some (ascii ''/media/covers/'' @ safe_cover_name)), w2)))"

definition opt_str :: "pystr option \<Rightarrow> pyval" where
  "opt_str x = (case x of None \<Rightarrow> VNone | Some s \<Rightarrow> VStr s)"

text \<open>
  \<open>audio_ext\<close> (line 112) is computed and never used, and \<open>splitext\<close> does not raise
  on a string; it is left out.
\<close>

definition upload_song ::
  "'s store_ops \<Rightarrow> pystr \<Rightarrow> pystr \<Rightarrow> pystr \<Rightarrow> pystr option \<Rightarrow> upload_file \<Rightarrow>
     upload_file option \<Rightarrow> 's world \<Rightarrow> (error + document) \<times> 's world" where
  "upload_song D cwd title_in artist_in album_in audio cover w =
     (let (ts, w1) = utcnow_timestamp w;
          safe_audio_name = safe_name ts audio;
          audio_path = os_path_join (AUDIO_DIR cwd) safe_audio_name
      in case write_file audio_path (content audio) w1 of
           (Inl e, w2) \<Rightarrow> (Inl e, w2)
         | (Inr _, w2) \<Rightarrow>
             (case save_cover cwd cover w2 of
                (Inl e, w3) \<Rightarrow> (Inl e, w3)
              | (Inr cover_url, w3) \<Rightarrow>
                  (let audio_url = ascii ''/media/audio/'' @ safe_audio_name
                   in case Song \<lparr>title = title_in, artist = artist_in, album = album_in,
                                  coverUrl = cover_url, audioUrl = Some audio_url,
                                  duration = None\<rparr> of
                        Inl e \<Rightarrow> (Inl e, w3)
                      | Inr song_doc \<Rightarrow>
                          (case create_document D (ascii ''song'') song_doc (store w3) of
                             (Inl e, s') \<Rightarrow> (Inl e, w3\<lparr>store := s'\<rparr>)
                           | (Inr new_id, s') \<Rightarrow>
                               (Inr [(ascii ''id'', VStr new_id),
                                     (ascii ''audioUrl'', VStr audio_url),
                                     (ascii ''coverUrl'', opt_str cover_url)],
                                w3\<lparr>store := s'\<rparr>)))))"

text \<open>
  The parameters of the handler (lines 105 to 107): \<open>title: str = Form(...)\<close> and
  \<open>artist: str = Form(...)\<close> are required form fields and
  \<open>album: Optional[str] = Form(None)\<close> is an optional one. The framework reads a
  form field that is sent empty as one that is not sent: a required field is then
  missing and the request is refused with status 422 before the handler runs, and an
  optional field takes its default. A form field is given as it arrives, \<open>None\<close> when
  the form does not have it. (The two \<open>File\<close> parameters are taken as already
  bound.)
\<close>

definition form_value :: "pystr option \<Rightarrow> pystr option" where
  "form_value field = (case field of None \<Rightarrow> None | Some v \<Rightarrow> if v = [] then None else Some v)"

definition upload_song_form ::
  "'s store_ops \<Rightarrow> pystr \<Rightarrow> pystr option \<Rightarrow> pystr option \<Rightarrow> pystr option \<Rightarrow> upload_file \<Rightarrow>
     upload_file option \<Rightarrow> 's world \<Rightarrow> (error + document) \<times> 's world" where
  "upload_song_form D cwd title_field artist_field album_field audio cover w =
     (case form_value title_field of
        None \<Rightarrow> (Inl RequestValidationError, w)
      | Some title_in \<Rightarrow>
          (case form_value artist_field of
             None \<Rightarrow> (Inl RequestValidationError, w)
           | Some artist_in \<Rightarrow>
               upload_song D cwd title_in artist_in (form_value album_field) audio cover w))"

section \<open>GET /test\<close>

text \<open>
  The global \<open>db\<close> is \<open>None\<close> or a handle. Of a handle the handler uses the attribute
  \<open>name\<close>, which may be missing (\<open>hasattr\<close> is false), have a value, or raise from its
  getter (\<open>hasattr\<close> lets every exception but \<open>AttributeError\<close> through), and the
  method \<open>list_collection_names()\<close>, which returns the names or raises. An exception
  is given by its text \<open>str(e)\<close>.
\<close>

datatype attr = NoAttr | Attr pystr | AttrRaises pystr

record db_handle =
  name_attr :: attr
  list_collection_names :: "pystr + pystr list"

record test_response =
  backend :: pystr
  database :: pystr
  database_url :: "pystr option"
  database_name :: "pystr option"
  connection_status :: pystr
  collections :: "pystr list"

definition response0 :: test_response where
  "response0 =
     \<lparr>backend = check_mark @ ascii '' Running'',
      database = cross_mark @ ascii '' Not Available'',
      database_url = None,
      database_name = None,
      connection_status = ascii ''Not Connected'',
      collections = []\<rparr>"

text \<open>
  The inner \<open>try\<close> (lines 55 to 60). Both assignments of the \<open>try\<close> part happen only
  when the call returns; the handler of \<open>Exception\<close> keeps the first 50 characters.
\<close>

definition list_collections :: "db_handle \<Rightarrow> test_response \<Rightarrow> test_response" where
  "list_collections d r =
     (case list_collection_names d of
        Inr cs \<Rightarrow>
          r\<lparr>collections := take 10 cs,
            database := check_mark @ ascii '' Connected & Working''\<rparr>
      | Inl e \<Rightarrow>
          r\<lparr>database := warning_sign @ ascii ''  Connected but Error: '' @ take 50 e\<rparr>)"

text \<open>
  The body of the outer \<open>try\<close> (lines 50 to 62): the exception that leaves it, if any,
  and the response as assigned so far.
\<close>

definition introspect :: "db_handle option \<Rightarrow> test_response \<Rightarrow> pystr option \<times> test_response" where
  "introspect db r =
     (case db of
        None \<Rightarrow> (None, r\<lparr>database := warning_sign @ ascii ''  Available but not initialized''\<rparr>)
      | Some d \<Rightarrow>
          (let r1 = r\<lparr>database := check_mark @ ascii '' Available'',
                      database_url := Some (check_mark @ ascii '' Set'')\<rparr>
           in case name_attr d of
                AttrRaises e \<Rightarrow> (Some e, r1)
              | NoAttr \<Rightarrow>
                  (None, list_collections d
                     (r1\<lparr>database_name := Some (check_mark @ ascii '' Connected''),
                         connection_status := ascii ''Connected''\<rparr>))
              | Attr n \<Rightarrow>
                  (None, list_collections d
                     (r1\<lparr>database_name := Some n,
                         connection_status := ascii ''Connected''\<rparr>))))"

text \<open>\<open>"... Set" if os.getenv(var) else "... Not Set"\<close>\<close>

definition env_set :: "(pystr \<Rightarrow> pystr option) \<Rightarrow> pystr \<Rightarrow> pystr" where
  "env_set getenv var =
     (if truthy (getenv var) then check_mark @ ascii '' Set''
      else cross_mark @ ascii '' Not Set'')"

definition test_database ::
  "db_handle option \<Rightarrow> (pystr \<Rightarrow> pystr option) \<Rightarrow> error + test_response" where
  "test_database db getenv =
     (let r = (case introspect db response0 of
                 (None, r1) \<Rightarrow> r1
               | (Some e, r1) \<Rightarrow> r1\<lparr>database := cross_mark @ ascii '' Error: '' @ take 50 e\<rparr>)
      in Inr (r\<lparr>database_url := Some (env_set getenv (ascii ''DATABASE_URL'')),
               database_name := Some (env_set getenv (ascii ''DATABASE_NAME''))\<rparr>))"

section \<open>A document store in memory\<close>

text \<open>
  Modelled from the spec: the document store of the module \<open>database\<close>, which is not
  part of the sources. The spec gives it two operations, \<open>create(collectionName,
  document) -> id\<close>, where the store assigns \<open>id\<close> and \<open>created_at\<close>, and
  \<open>queryAll(collectionName)\<close>, which returns the documents of the collection, each with
  its store-native identifier and creation timestamp. This store keeps the documents
  in a list; it numbers them and stamps them with a counter. The results below hold
  for every store; this one runs them on concrete requests.
\<close>

record mem_store =
  mem_docs :: "(pystr \<times> document) list"
  mem_next :: nat

definition model_dump :: "song_fields \<Rightarrow> document" where
  "model_dump f =
     [(ascii ''title'', VStr (title f)),
      (ascii ''artist'', VStr (artist f)),
      (ascii ''album'', opt_str (album f)),
      (ascii ''coverUrl'', opt_str (coverUrl f)),
      (ascii ''audioUrl'', opt_str (audioUrl f)),
      (ascii ''duration'', (case duration f of None \<Rightarrow> VNone | Some x \<Rightarrow> VFloat x))]"

definition mem_create :: "pystr \<Rightarrow> song_fields \<Rightarrow> mem_store \<Rightarrow> (error + pystr) \<times> mem_store" where
  "mem_create coll f s =
     (let oid = dec_nat (mem_next s);
          doc = model_dump f @
                [(ascii ''created_at'', VDatetime (mem_next s)), (ascii ''_id'', VObjectId oid)]
      in (Inr oid, s\<lparr>mem_docs := mem_docs s @ [(coll, doc)], mem_next := mem_next s + 1\<rparr>))"

definition mem_query :: "pystr \<Rightarrow> document \<Rightarrow> mem_store \<Rightarrow> error + document list" where
  "mem_query coll flt s = Inr (map snd (filter (\<lambda>p. fst p = coll) (mem_docs s)))"

definition mem_ops :: "mem_store store_ops" where
  "mem_ops = \<lparr>create_document = mem_create, get_documents = mem_query\<rparr>"

section \<open>Notions for the properties\<close>

text \<open>
  A document is timestamped as the data model has it when its \<open>created_at\<close>, if it has
  one, is a datetime.
\<close>

definition created_ok :: "document \<Rightarrow> bool" where
  "created_ok d =
     (case map_of d (ascii ''created_at'') of
        None \<Rightarrow> True
      | Some (VDatetime t) \<Rightarrow> True
      | Some _ \<Rightarrow> False)"

text \<open>
  The creation time of a record, with the earliest possible time, \<open>datetime.min\<close>,
  for a record that has none.
\<close>

definition created_time :: "document \<Rightarrow> nat" where
  "created_time d =
     (case map_of d (ascii ''created_at'') of
        Some (VDatetime t) \<Rightarrow> t
      | _ \<Rightarrow> 0)"

section \<open>Example data\<close>

text \<open>
  Three documents of the collection \<open>song\<close>: \<open>song_x\<close> was created before \<open>song_y\<close>,
  and \<open>song_z\<close> has neither \<open>created_at\<close> nor \<open>_id\<close>.
\<close>

definition song_x :: document where
  "song_x = [(ascii ''_id'', VObjectId (ascii ''a1'')), (ascii ''title'', VStr (ascii ''X'')),
             (ascii ''created_at'', VDatetime 1)]"

definition song_y :: document where
  "song_y = [(ascii ''_id'', VObjectId (ascii ''a2'')), (ascii ''title'', VStr (ascii ''Y'')),
             (ascii ''created_at'', VDatetime 2)]"

definition song_z :: document where
  "song_z = [(ascii ''title'', VStr (ascii ''Z''))]"

definition three_songs :: mem_store where
  "three_songs =
     \<lparr>mem_docs = [(ascii ''song'', song_x), (ascii ''song'', song_z), (ascii ''song'', song_y)],
      mem_next = 3\<rparr>"

text \<open>A document that already has a field \<open>id\<close>.\<close>

definition song_with_id :: document where
  "song_with_id = [(ascii ''_id'', VObjectId (ascii ''a1'')), (ascii ''id'', VStr (ascii ''custom''))]"

definition one_song :: mem_store where
  "one_song = \<lparr>mem_docs = [(ascii ''song'', song_with_id)], mem_next = 1\<rparr>"

definition no_songs :: mem_store where
  "no_songs = \<lparr>mem_docs = [], mem_next = 0\<rparr>"

text \<open>The text of a float or a datetime plays no part in the examples.\<close>

definition no_text :: "pyval \<Rightarrow> pystr" where
  "no_text v = []"

text \<open>Requests to \<open>POST /songs\<close>.\<close>

definition song_request :: song_fields where
  "song_request =
     \<lparr>title = ascii ''A'', artist = ascii ''B'', album = None, coverUrl = None,
      audioUrl = Some (ascii ''http://x/y.mp3''), duration = None\<rparr>"

definition no_audio_request :: song_fields where
  "no_audio_request = song_request\<lparr>audioUrl := None\<rparr>"

definition untitled_request :: song_fields where
  "untitled_request = song_request\<lparr>title := [], artist := []\<rparr>"

definition negative_request :: song_fields where
  "negative_request = song_request\<lparr>duration := Some (- 1)\<rparr>"

text \<open>
  Uploads. In both worlds the clock stands at the Unix time 1700000000 at the first
  reading and one second later at the second; the server of \<open>utc_world\<close> runs in UTC,
  the server of \<open>berlin_world\<close> one hour east of it.
\<close>

definition audio_file :: upload_file where
  "audio_file = \<lparr>filename = ascii ''a b.mp3'', content = [1, 2, 3]\<rparr>"

definition cover_file :: upload_file where
  "cover_file = \<lparr>filename = ascii ''c d.png'', content = [4, 5]\<rparr>"

definition utc_world :: "mem_store world" where
  "utc_world =
     \<lparr>store = no_songs, files = [], unwritable = (\<lambda>p. False),
      unix_micros = (\<lambda>n. 1700000000000000 + int n * 1000000),
      clock_reads = 0, utcoffset = 0\<rparr>"

definition berlin_world :: "mem_store world" where
  "berlin_world = utc_world\<lparr>utcoffset := 3600\<rparr>"

text \<open>
  A database handle whose \<open>list_collection_names\<close> raises with a text of 60
  characters, one that returns twelve names, and an empty environment.
\<close>

definition failing_db :: db_handle where
  "failing_db = \<lparr>name_attr = Attr (ascii ''music''), list_collection_names = Inl (replicate 60 120)\<rparr>"

definition twelve_db :: db_handle where
  "twelve_db = \<lparr>name_attr = NoAttr, list_collection_names = Inr (replicate 12 (ascii ''c''))\<rparr>"

definition broken_db :: db_handle where
  "broken_db = \<lparr>name_attr = AttrRaises (replicate 60 120), list_collection_names = Inr []\<rparr>"

definition no_env :: "pystr \<Rightarrow> pystr option" where
  "no_env var = None"

section \<open>Properties of GET /songs\<close>

lemma ascii_eq_iff: "ascii a = ascii b \<longleftrightarrow> a = b"
  unfolding ascii_def by (simp add: inj_on_def)

lemma map_of_project_id_other:
  "k \<noteq> ascii ''id'' \<Longrightarrow> k \<noteq> ascii ''_id'' \<Longrightarrow> map_of (project_id so d) k = map_of d k"
  by (simp add: project_id_def AList.update_conv' AList.delete_conv')

lemma map_of_project_id_id:
  "map_of (project_id so d) (ascii ''id'') =
     Some (VStr (py_str so (case map_of d (ascii ''_id'') of None \<Rightarrow> VStr [] | Some v \<Rightarrow> v)))"
  by (simp add: project_id_def AList.update_conv')

lemma map_of_project_id_native:
  "map_of (project_id so d) (ascii ''_id'') = None"
  by (simp add: project_id_def AList.update_conv' AList.delete_conv' ascii_eq_iff)

lemma sort_key_project_id: "sort_key (project_id so d) = sort_key d"
  by (simp add: sort_key_def map_of_project_id_other ascii_eq_iff)

lemma created_ok_project_id: "created_ok (project_id so d) = created_ok d"
  by (simp add: created_ok_def map_of_project_id_other ascii_eq_iff)

lemma created_time_project_id: "created_time (project_id so d) = created_time d"
  by (simp add: created_time_def map_of_project_id_other ascii_eq_iff)

lemma sort_key_created_ok: "created_ok d \<Longrightarrow> sort_key d = VDatetime (created_time d)"
  by (auto simp: created_ok_def sort_key_def created_time_def split: option.splits pyval.splits)

text \<open>The sort neither adds nor drops a record.\<close>

lemma insert_desc_mset:
  "insert_desc x ys = Inr zs \<Longrightarrow> mset zs = add_mset x (mset ys)"
  by (induction ys arbitrary: zs) (auto split: sum.splits bool.splits)

lemma sort_desc_from_mset:
  "sort_desc_from acc xs = Inr out \<Longrightarrow> mset out = mset acc + mset xs"
  by (induction xs arbitrary: acc) (auto split: sum.splits dest: insert_desc_mset)

text \<open>On timestamped records no comparison raises, and the result is ordered.\<close>

lemma insert_desc_total:
  "created_ok x \<Longrightarrow> \<forall>y\<in>set ys. created_ok y \<Longrightarrow> \<exists>zs. insert_desc x ys = Inr zs"
  by (induction ys) (auto simp: sort_key_created_ok split: sum.splits bool.splits)

lemma insert_desc_sorted:
  "created_ok x \<Longrightarrow> \<forall>y\<in>set ys. created_ok y \<Longrightarrow> insert_desc x ys = Inr zs \<Longrightarrow>
   sorted_wrt (\<lambda>a b. created_time b \<le> created_time a) ys \<Longrightarrow>
   sorted_wrt (\<lambda>a b. created_time b \<le> created_time a) zs"
proof (induction ys arbitrary: zs)
  case Nil
  then show ?case by auto
next
  case (Cons y ys)
  show ?case
  proof (cases "created_time y < created_time x")
    case True
    with Cons.prems have "zs = x # y # ys"
      by (simp add: sort_key_created_ok)
    with True Cons.prems show ?thesis by fastforce
  next
    case False
    with Cons.prems obtain zs' where z: "insert_desc x ys = Inr zs'" "zs = y # zs'"
      by (auto simp: sort_key_created_ok split: sum.splits)
    have "sorted_wrt (\<lambda>a b. created_time b \<le> created_time a) zs'"
      using Cons.IH [OF Cons.prems(1) _ z(1)] Cons.prems by simp
    moreover have "set zs' = insert x (set ys)"
      using insert_desc_mset [OF z(1)] by (metis set_mset_add_mset_insert set_mset_mset)
    ultimately show ?thesis using z False Cons.prems by auto
  qed
qed

lemma sort_desc_from_sorted:
  "\<forall>y\<in>set acc. created_ok y \<Longrightarrow> \<forall>x\<in>set xs. created_ok x \<Longrightarrow>
   sorted_wrt (\<lambda>a b. created_time b \<le> created_time a) acc \<Longrightarrow>
   \<exists>out. sort_desc_from acc xs = Inr out \<and>
         sorted_wrt (\<lambda>a b. created_time b \<le> created_time a) out"
proof (induction xs arbitrary: acc)
  case Nil
  then show ?case by simp
next
  case (Cons x xs)
  from Cons.prems obtain zs where z: "insert_desc x acc = Inr zs"
    using insert_desc_total [of x acc] by auto
  have s: "sorted_wrt (\<lambda>a b. created_time b \<le> created_time a) zs"
    using insert_desc_sorted [OF _ _ z] Cons.prems by simp
  have "set zs = insert x (set acc)"
    using insert_desc_mset [OF z] by (metis set_mset_add_mset_insert set_mset_mset)
  then have "\<forall>y\<in>set zs. created_ok y" using Cons.prems by simp
  from Cons.IH [OF this _ s] Cons.prems z show ?case by simp
qed

lemma list_songs_returns:
  assumes "get_documents D (ascii ''song'') [] s = Inr docs"
    and "\<forall>d\<in>set docs. created_ok d"
  shows "\<exists>out. list_songs so D s = Inr out \<and>
               sorted_wrt (\<lambda>a b. created_time b \<le> created_time a) out"
  using assms sort_desc_from_sorted [of "[]" "map (project_id so) docs"]
  by (simp add: list_songs_def sort_reverse_def created_ok_project_id)

lemma list_songs_mset:
  assumes "get_documents D (ascii ''song'') [] s = Inr docs"
    and "list_songs so D s = Inr out"
  shows "mset out = mset (map (project_id so) docs)"
  using assms sort_desc_from_mset [of "[]" "map (project_id so) docs" out]
  by (simp add: list_songs_def sort_reverse_def)

text \<open>The three example songs, listed: \<open>song_y\<close>, then \<open>song_x\<close>, then \<open>song_z\<close>.\<close>

lemma three_songs_listed:
  "list_songs no_text mem_ops three_songs =
     Inr [[(ascii ''title'', VStr (ascii ''Y'')), (ascii ''created_at'', VDatetime 2),
           (ascii ''id'', VStr (ascii ''a2''))],
          [(ascii ''title'', VStr (ascii ''X'')), (ascii ''created_at'', VDatetime 1),
           (ascii ''id'', VStr (ascii ''a1''))],
          [(ascii ''title'', VStr (ascii ''Z'')), (ascii ''id'', VStr [])]]"
  by (simp add: list_songs_def mem_ops_def mem_query_def three_songs_def song_x_def song_y_def
      song_z_def project_id_def sort_reverse_def sort_key_def ascii_eq_iff)

lemma three_songs_queried:
  "get_documents mem_ops (ascii ''song'') [] three_songs = Inr [song_x, song_z, song_y]"
  by (simp add: mem_ops_def mem_query_def three_songs_def)

lemma three_songs_created_ok: "\<forall>d\<in>set [song_x, song_z, song_y]. created_ok d"
  by (simp add: created_ok_def song_x_def song_y_def song_z_def ascii_eq_iff)

lemma three_songs_each_ok: "created_ok song_x \<and> created_ok song_z \<and> created_ok song_y"
  by (simp add: created_ok_def song_x_def song_y_def song_z_def ascii_eq_iff)

text \<open>
  C2. Whatever documents the store returns, as long as each \<open>created_at\<close> that is
  present is a datetime, \<open>GET /songs\<close> returns the projected records, all of them and
  no others, ordered by \<open>created_at\<close> from newest to oldest, where a record without
  \<open>created_at\<close> counts as created at the earliest possible time: behind such a record
  come only records of that earliest time.
\<close>

theorem list_songs_newest_first:
  assumes "get_documents D (ascii ''song'') [] s = Inr docs"
    and "\<forall>d\<in>set docs. created_ok d"
  shows "\<exists>out. list_songs so D s = Inr out \<and>
           mset out = mset (map (project_id so) docs) \<and>
           sorted_wrt (\<lambda>a b. created_time b \<le> created_time a) out \<and>
           (\<forall>i j. i < j \<and> j < length out \<and> map_of (out ! i) (ascii ''created_at'') = None
                  \<longrightarrow> created_time (out ! j) = 0)"
proof -
  from list_songs_returns [OF assms] obtain out where
    o: "list_songs so D s = Inr out"
       "sorted_wrt (\<lambda>a b. created_time b \<le> created_time a) out"
    by blast
  have "created_time (out ! j) = 0"
    if "i < j" "j < length out" "map_of (out ! i) (ascii ''created_at'') = None" for i j
  proof -
    have "created_time (out ! j) \<le> created_time (out ! i)"
      using o(2) that by (simp add: sorted_wrt_iff_nth_less)
    moreover have "created_time (out ! i) = 0"
      using that(3) by (simp add: created_time_def)
    ultimately show ?thesis by simp
  qed
  with o list_songs_mset [OF assms(1) o(1)] show ?thesis by blast
qed

theorem list_songs_newest_first_witness:
  "get_documents mem_ops (ascii ''song'') [] three_songs = Inr [song_x, song_z, song_y] \<and>
   created_ok song_x \<and> created_ok song_z \<and> created_ok song_y \<and>
   (\<exists>out. list_songs no_text mem_ops three_songs = Inr out \<and>
      mset out = mset (map (project_id no_text) [song_x, song_z, song_y]) \<and>
      sorted_wrt (\<lambda>a b. created_time b \<le> created_time a) out \<and>
      (\<forall>i j. i < j \<and> j < length out \<and> map_of (out ! i) (ascii ''created_at'') = None
             \<longrightarrow> created_time (out ! j) = 0))"
  using three_songs_queried three_songs_created_ok three_songs_each_ok
    list_songs_newest_first [OF three_songs_queried three_songs_created_ok, of no_text]
  by blast

lemma list_songs_set:
  assumes "get_documents D (ascii ''song'') [] s = Inr docs"
    and "list_songs so D s = Inr out"
  shows "set out = project_id so ` set docs"
proof -
  have "set_mset (mset out) = set_mset (mset (map (project_id so) docs))"
    using list_songs_mset [OF assms] by simp
  then show ?thesis by simp
qed

text \<open>
  C3. \<open>GET /songs\<close> returns on timestamped documents, and whenever it returns: for
  every document of the store that has an \<open>_id\<close>, the record built from it is in the
  output, its \<open>id\<close> is the string \<open>str(_id)\<close> and it has no field \<open>_id\<close>; and every
  record of the output has a string \<open>id\<close> and no \<open>_id\<close>.
\<close>

theorem list_songs_id_projection:
  assumes "get_documents D (ascii ''song'') [] s = Inr docs"
  shows "((\<forall>d\<in>set docs. created_ok d) \<longrightarrow> (\<exists>out. list_songs so D s = Inr out)) \<and>
         (\<forall>out. list_songs so D s = Inr out \<longrightarrow>
            (\<forall>d\<in>set docs. \<forall>v. map_of d (ascii ''_id'') = Some v \<longrightarrow>
               project_id so d \<in> set out \<and>
               map_of (project_id so d) (ascii ''id'') = Some (VStr (py_str so v)) \<and>
               map_of (project_id so d) (ascii ''_id'') = None) \<and>
            (\<forall>r\<in>set out. (\<exists>i. map_of r (ascii ''id'') = Some (VStr i)) \<and>
               map_of r (ascii ''_id'') = None))"
proof (intro conjI allI impI)
  assume "\<forall>d\<in>set docs. created_ok d"
  with list_songs_returns [OF assms] show "\<exists>out. list_songs so D s = Inr out" by blast
next
  fix out
  assume o: "list_songs so D s = Inr out"
  note st = list_songs_set [OF assms o]
  show "\<forall>d\<in>set docs. \<forall>v. map_of d (ascii ''_id'') = Some v \<longrightarrow>
          project_id so d \<in> set out \<and>
          map_of (project_id so d) (ascii ''id'') = Some (VStr (py_str so v)) \<and>
          map_of (project_id so d) (ascii ''_id'') = None"
    using st by (simp add: map_of_project_id_id map_of_project_id_native)
  show "\<forall>r\<in>set out. (\<exists>i. map_of r (ascii ''id'') = Some (VStr i)) \<and>
          map_of r (ascii ''_id'') = None"
    using st by (auto simp: map_of_project_id_id map_of_project_id_native)
qed

theorem list_songs_id_projection_witness:
  "get_documents mem_ops (ascii ''song'') [] three_songs = Inr [song_x, song_z, song_y] \<and>
   created_ok song_x \<and> created_ok song_z \<and> created_ok song_y \<and>
   map_of song_x (ascii ''_id'') = Some (VObjectId (ascii ''a1'')) \<and>
   (\<exists>out. list_songs no_text mem_ops three_songs = Inr out \<and>
      project_id no_text song_x \<in> set out \<and>
      (\<forall>r\<in>set out. (\<exists>i. map_of r (ascii ''id'') = Some (VStr i)) \<and>
         map_of r (ascii ''_id'') = None)) \<and>
   map_of (project_id no_text song_x) (ascii ''id'') = Some (VStr (ascii ''a1'')) \<and>
   map_of (project_id no_text song_x) (ascii ''_id'') = None"
proof -
  have x: "song_x \<in> set [song_x, song_z, song_y]" by simp
  have i: "map_of song_x (ascii ''_id'') = Some (VObjectId (ascii ''a1''))"
    by (simp add: song_x_def)
  from list_songs_id_projection [OF three_songs_queried, of no_text]
    three_songs_created_ok three_songs_each_ok x i three_songs_queried
  show ?thesis by fastforce
qed

text \<open>
  C9, as stated, fails on a document that has a field \<open>id\<close> of its own: the handler
  overwrites it, so the pair does not reach the output unchanged.
\<close>

theorem list_songs_frame_counterexample:
  "get_documents mem_ops (ascii ''song'') [] one_song = Inr [song_with_id] \<and>
   list_songs no_text mem_ops one_song = Inr [[(ascii ''id'', VStr (ascii ''a1''))]] \<and>
   ascii ''id'' \<noteq> ascii ''_id'' \<and>
   map_of song_with_id (ascii ''id'') = Some (VStr (ascii ''custom'')) \<and>
   map_of [(ascii ''id'', VStr (ascii ''a1''))] (ascii ''id'') \<noteq> Some (VStr (ascii ''custom''))"
  by (simp add: list_songs_def mem_ops_def mem_query_def one_song_def song_with_id_def
      project_id_def sort_reverse_def ascii_eq_iff)

text \<open>
  C9, amended. \<open>GET /songs\<close> returns on timestamped documents, and whenever it
  returns, the output is a permutation of the projected documents, and in the record
  built from a document every key other than \<open>_id\<close> and \<open>id\<close> has the value it had in
  the document (or is missing as it was there).
\<close>

theorem list_songs_frame:
  assumes "get_documents D (ascii ''song'') [] s = Inr docs"
  shows "((\<forall>d\<in>set docs. created_ok d) \<longrightarrow> (\<exists>out. list_songs so D s = Inr out)) \<and>
         (\<forall>out. list_songs so D s = Inr out \<longrightarrow>
            mset out = mset (map (project_id so) docs) \<and>
            (\<forall>d\<in>set docs. \<forall>k. k \<noteq> ascii ''_id'' \<and> k \<noteq> ascii ''id'' \<longrightarrow>
               map_of (project_id so d) k = map_of d k))"
  using list_songs_returns [OF assms, of so] list_songs_mset [OF assms, of so]
  by (auto simp: map_of_project_id_other)

theorem list_songs_frame_witness:
  "get_documents mem_ops (ascii ''song'') [] three_songs = Inr [song_x, song_z, song_y] \<and>
   created_ok song_x \<and> created_ok song_z \<and> created_ok song_y \<and>
   ascii ''title'' \<noteq> ascii ''_id'' \<and> ascii ''title'' \<noteq> ascii ''id'' \<and>
   (\<exists>out. list_songs no_text mem_ops three_songs = Inr out \<and>
      mset out = mset (map (project_id no_text) [song_x, song_z, song_y])) \<and>
   map_of (project_id no_text song_x) (ascii ''title'') = map_of song_x (ascii ''title'')"
proof -
  have x: "song_x \<in> set [song_x, song_z, song_y]" by simp
  have k: "ascii ''title'' \<noteq> ascii ''_id''" "ascii ''title'' \<noteq> ascii ''id''"
    by (simp_all add: ascii_eq_iff)
  from list_songs_frame [OF three_songs_queried, of no_text]
    three_songs_created_ok three_songs_each_ok x k three_songs_queried
  show ?thesis by fastforce
qed

text \<open>
  C10. \<open>GET /songs\<close> returns on timestamped documents whether or not they have an
  \<open>_id\<close>, and whenever it returns, the record built from a document without \<open>_id\<close> is
  in the output and its \<open>id\<close> is the empty string.
\<close>

theorem list_songs_without_native_id:
  assumes "get_documents D (ascii ''song'') [] s = Inr docs"
  shows "((\<forall>d\<in>set docs. created_ok d) \<longrightarrow> (\<exists>out. list_songs so D s = Inr out)) \<and>
         (\<forall>out. list_songs so D s = Inr out \<longrightarrow>
            (\<forall>d\<in>set docs. map_of d (ascii ''_id'') = None \<longrightarrow>
               project_id so d \<in> set out \<and>
               map_of (project_id so d) (ascii ''id'') = Some (VStr [])))"
  using list_songs_returns [OF assms, of so] list_songs_set [OF assms, of so]
  by (auto simp: map_of_project_id_id)

theorem list_songs_without_native_id_witness:
  "get_documents mem_ops (ascii ''song'') [] three_songs = Inr [song_x, song_z, song_y] \<and>
   created_ok song_x \<and> created_ok song_z \<and> created_ok song_y \<and>
   map_of song_z (ascii ''_id'') = None \<and>
   (\<exists>out. list_songs no_text mem_ops three_songs = Inr out \<and>
      project_id no_text song_z \<in> set out) \<and>
   map_of (project_id no_text song_z) (ascii ''id'') = Some (VStr [])"
proof -
  have z: "song_z \<in> set [song_x, song_z, song_y]" by simp
  have i: "map_of song_z (ascii ''_id'') = None"
    by (simp add: song_z_def ascii_eq_iff)
  from list_songs_without_native_id [OF three_songs_queried, of no_text]
    three_songs_created_ok three_songs_each_ok z i three_songs_queried
  show ?thesis by fastforce
qed

section \<open>Properties of POST /songs\<close>

lemma dec_nat_0: "dec_nat 0 = ascii ''0''"
  by (simp add: dec_nat.simps ascii_def)

lemma mem_create_song_request:
  "create_document mem_ops (ascii ''song'') song_request no_songs =
     (Inr (ascii ''0''),
      \<lparr>mem_docs = [(ascii ''song'', model_dump song_request @
          [(ascii ''created_at'', VDatetime 0), (ascii ''_id'', VObjectId (ascii ''0''))])],
       mem_next = 1\<rparr>)"
  by (simp add: mem_ops_def mem_create_def no_songs_def dec_nat_0 Let_def)

text \<open>
  C1. Over any store: a request without \<open>audioUrl\<close>, or with the empty one, is
  answered with status 400 and the message
  \<open>audioUrl is required when not uploading a file.\<close>, and the store is left as it
  was; a request with a non-empty \<open>audioUrl\<close>, for which the store's
  \<open>create_document\<close> returns an identifier, is answered with status 200 and
  \<open>{"id": new_id}\<close> for that identifier, and the store is the one that this single
  \<open>create_document\<close> of the song in the collection \<open>song\<close> leaves.
\<close>

theorem create_song_validation:
  "((audioUrl song = None \<or> audioUrl song = Some []) \<longrightarrow>
      create_song D song s =
        (Inl (HTTPException 400 (ascii ''audioUrl is required when not uploading a file.'')), s) \<and>
      status_code (fst (create_song D song s)) = 400) \<and>
   (\<forall>u new_id s'. audioUrl song = Some u \<and> u \<noteq> [] \<and>
        create_document D (ascii ''song'') song s = (Inr new_id, s') \<longrightarrow>
      create_song D song s = (Inr [(ascii ''id'', VStr new_id)], s') \<and>
      status_code (fst (create_song D song s)) = 200)"
  by (auto simp: create_song_def audio_required_def)

theorem create_song_validation_witness:
  "audioUrl no_audio_request = None \<and>
   create_song mem_ops no_audio_request no_songs =
     (Inl (HTTPException 400 (ascii ''audioUrl is required when not uploading a file.'')), no_songs) \<and>
   status_code (fst (create_song mem_ops no_audio_request no_songs)) = 400 \<and>
   audioUrl song_request = Some (ascii ''http://x/y.mp3'') \<and> ascii ''http://x/y.mp3'' \<noteq> [] \<and>
   create_song mem_ops song_request no_songs =
     (Inr [(ascii ''id'', VStr (ascii ''0''))],
      \<lparr>mem_docs = [(ascii ''song'', model_dump song_request @
          [(ascii ''created_at'', VDatetime 0), (ascii ''_id'', VObjectId (ascii ''0''))])],
       mem_next = 1\<rparr>) \<and>
   status_code (fst (create_song mem_ops song_request no_songs)) = 200"
proof -
  have a: "audioUrl no_audio_request = None"
    by (simp add: no_audio_request_def)
  have b: "audioUrl song_request = Some (ascii ''http://x/y.mp3'')" "ascii ''http://x/y.mp3'' \<noteq> []"
    by (simp_all add: song_request_def ascii_def)
  from create_song_validation [of no_audio_request mem_ops no_songs] a
  have 1: "create_song mem_ops no_audio_request no_songs =
     (Inl (HTTPException 400 (ascii ''audioUrl is required when not uploading a file.'')), no_songs) \<and>
     status_code (fst (create_song mem_ops no_audio_request no_songs)) = 400"
    by blast
  from create_song_validation [of song_request mem_ops no_songs] b mem_create_song_request
  have 2: "create_song mem_ops song_request no_songs =
     (Inr [(ascii ''id'', VStr (ascii ''0''))],
      \<lparr>mem_docs = [(ascii ''song'', model_dump song_request @
          [(ascii ''created_at'', VDatetime 0), (ascii ''_id'', VObjectId (ascii ''0''))])],
       mem_next = 1\<rparr>) \<and>
     status_code (fst (create_song mem_ops song_request no_songs)) = 200"
    by blast
  from a b 1 2 show ?thesis by blast
qed

text \<open>
  C7. The request with \<open>duration = -1\<close> is one that \<open>Song\<close>, the schema of the
  collection, refuses and that \<open>SongCreate\<close>, the model of the request, lets pass;
  \<open>POST /songs\<close> accepts it and the document with the negative duration is stored.
\<close>

theorem negative_duration_persisted:
  "duration negative_request = Some (- 1) \<and>
   Song negative_request = Inl ValidationError \<and>
   SongCreate negative_request = Inr negative_request \<and>
   create_song mem_ops negative_request no_songs =
     (Inr [(ascii ''id'', VStr (ascii ''0''))],
      \<lparr>mem_docs = [(ascii ''song'',
          [(ascii ''title'', VStr (ascii ''A'')), (ascii ''artist'', VStr (ascii ''B'')),
           (ascii ''album'', VNone), (ascii ''coverUrl'', VNone),
           (ascii ''audioUrl'', VStr (ascii ''http://x/y.mp3'')),
           (ascii ''duration'', VFloat (- 1)), (ascii ''created_at'', VDatetime 0),
           (ascii ''_id'', VObjectId (ascii ''0''))])],
       mem_next = 1\<rparr>)"
  by (simp add: create_song_def negative_request_def song_request_def mem_ops_def mem_create_def
      no_songs_def dec_nat_0 Let_def model_dump_def opt_str_def Song_def SongCreate_def ascii_def)

section \<open>Properties of POST /songs/upload\<close>

lemma timestamp_at_upd [simp]:
  "timestamp_at (w\<lparr>clock_reads := n, files := f\<rparr>) k = timestamp_at w k"
  by (simp add: timestamp_at_def)

text \<open>What a returned response says about the run that produced it.\<close>

lemma upload_song_Inr:
  assumes "upload_song D cwd t a al audio cover w = (Inr resp, w')"
  shows "\<exists>new_id cover_url w3.
           save_cover cwd cover
             (w\<lparr>clock_reads := clock_reads w + 1,
                files := AList.update
                  (os_path_join (AUDIO_DIR cwd) (safe_name (timestamp_at w (clock_reads w)) audio))
                  (content audio) (files w)\<rparr>) = (Inr cover_url, w3) \<and>
           create_document D (ascii ''song'')
             \<lparr>title = t, artist = a, album = al, coverUrl = cover_url,
              audioUrl = Some (ascii ''/media/audio/'' @ safe_name (timestamp_at w (clock_reads w)) audio),
              duration = None\<rparr> (store w3) = (Inr new_id, store w') \<and>
           w' = w3\<lparr>store := store w'\<rparr> \<and>
           resp = [(ascii ''id'', VStr new_id),
                   (ascii ''audioUrl'',
                    VStr (ascii ''/media/audio/'' @ safe_name (timestamp_at w (clock_reads w)) audio)),
                   (ascii ''coverUrl'', opt_str cover_url)]"
  using assms
  by (auto simp: upload_song_def utcnow_timestamp_def write_file_def Song_def Let_def
      split: if_splits prod.splits sum.splits)

lemma save_cover_Inr:
  assumes "save_cover cwd cover w = (Inr cover_url, w')"
  shows "store w' = store w \<and>
         (case cover of
            None \<Rightarrow> cover_url = None \<and> w' = w
          | Some c \<Rightarrow>
              cover_url = Some (ascii ''/media/covers/'' @ safe_name (timestamp_at w (clock_reads w)) c) \<and>
              map_of (files w') (os_path_join (COVER_DIR cwd) (safe_name (timestamp_at w (clock_reads w)) c))
                = Some (content c))"
  using assms
  by (auto simp: save_cover_def utcnow_timestamp_def write_file_def Let_def AList.update_conv'
      split: if_splits prod.splits sum.splits option.splits)

text \<open>The upload returns when every path can be written and the store accepts the song.\<close>

lemma upload_song_returns:
  assumes "\<forall>p. \<not> unwritable w p"
    and "\<forall>f. \<exists>i s'. create_document D (ascii ''song'') f (store w) = (Inr i, s')"
  shows "\<exists>resp w'. upload_song D cwd t a al audio cover w = (Inr resp, w')"
proof -
  let ?w2 = "w\<lparr>clock_reads := clock_reads w + 1,
                files := AList.update
                  (os_path_join (AUDIO_DIR cwd) (safe_name (timestamp_at w (clock_reads w)) audio))
                  (content audio) (files w)\<rparr>"
  obtain cover_url w3 where c: "save_cover cwd cover ?w2 = (Inr cover_url, w3)" "store w3 = store w"
    using assms(1)
    by (cases cover) (auto simp: save_cover_def utcnow_timestamp_def write_file_def Let_def)
  obtain i s' where
    "create_document D (ascii ''song'')
       \<lparr>title = t, artist = a, album = al, coverUrl = cover_url,
        audioUrl = Some (ascii ''/media/audio/'' @ safe_name (timestamp_at w (clock_reads w)) audio),
        duration = None\<rparr> (store w) = (Inr i, s')"
    using assms(2) by blast
  with c assms(1) show ?thesis
    by (simp add: upload_song_def utcnow_timestamp_def write_file_def Song_def Let_def)
qed

text \<open>
  The name of the audio file in general, and on a server that runs in UTC, where the
  number in front is the Unix time in whole seconds.
\<close>

lemma upload_song_audio_url:
  assumes "upload_song D cwd t a al audio cover w = (Inr resp, w')"
  shows "map_of resp (ascii ''audioUrl'') =
           Some (VStr (ascii ''/media/audio/'' @ py_str_int (timestamp_at w (clock_reads w)) @
                       ascii ''_'' @ replace_spaces (filename audio)))"
  using upload_song_Inr [OF assms] by (auto simp: safe_name_def ascii_eq_iff)

lemma timestamp_at_utc:
  "utcoffset w = 0 \<Longrightarrow> timestamp_at w n = int_of_micros (unix_micros w n)"
  by (simp add: timestamp_at_def)

lemma upload_in_utc:
  "fst (upload_song mem_ops (ascii ''/app'') (ascii ''A'') (ascii ''B'') None audio_file
          (Some cover_file) utc_world) =
     Inr [(ascii ''id'', VStr (ascii ''0'')),
          (ascii ''audioUrl'', VStr (ascii ''/media/audio/1700000000_a_b.mp3'')),
          (ascii ''coverUrl'', VStr (ascii ''/media/covers/1700000001_c_d.png''))]"
  by (simp add: upload_song_def utcnow_timestamp_def timestamp_at_def int_of_micros_def
      write_file_def save_cover_def Song_def Let_def safe_name_def py_str_int_def
      replace_spaces_def os_path_join_def AUDIO_DIR_def COVER_DIR_def UPLOAD_DIR_def
      utc_world_def audio_file_def cover_file_def mem_ops_def mem_create_def no_songs_def
      opt_str_def dec_nat.simps ascii_def)

text \<open>
  C4. On a server one hour east of UTC, at the Unix time 1700000000, the upload of
  \<open>a b.mp3\<close> is stored as \<open>1699996400_a_b.mp3\<close>: the number in front is not the Unix
  time but the Unix time less the offset of the local time zone.
\<close>

theorem upload_in_berlin:
  "unix_micros berlin_world (clock_reads berlin_world) = 1700000000 * 1000000 \<and>
   utcoffset berlin_world = 3600 \<and>
   fst (upload_song mem_ops (ascii ''/app'') (ascii ''A'') (ascii ''B'') None audio_file
          None berlin_world) =
     Inr [(ascii ''id'', VStr (ascii ''0'')),
          (ascii ''audioUrl'', VStr (ascii ''/media/audio/1699996400_a_b.mp3'')),
          (ascii ''coverUrl'', VNone)]"
  by (simp add: upload_song_def utcnow_timestamp_def timestamp_at_def int_of_micros_def
      write_file_def save_cover_def Song_def Let_def safe_name_def py_str_int_def
      replace_spaces_def os_path_join_def AUDIO_DIR_def COVER_DIR_def UPLOAD_DIR_def
      utc_world_def berlin_world_def audio_file_def mem_ops_def mem_create_def no_songs_def
      opt_str_def dec_nat.simps ascii_def)

text \<open>
  C8. The upload returns when every path can be written and the store accepts the
  song, and whenever it returns, the response has the keys \<open>id\<close>, \<open>audioUrl\<close> and
  \<open>coverUrl\<close>, in this order; without a cover the value of \<open>coverUrl\<close> is \<open>None\<close>,
  and with a cover it is \<open>/media/covers/\<close> followed by the name derived for the cover
  (at the second reading of the clock), the name under which the cover's bytes are
  in the cover directory.
\<close>

theorem upload_song_cover_url:
  "((\<forall>p. \<not> unwritable w p) \<and>
    (\<forall>f. \<exists>i s'. create_document D (ascii ''song'') f (store w) = (Inr i, s')) \<longrightarrow>
      (\<exists>resp w'. upload_song D cwd t a al audio cover w = (Inr resp, w'))) \<and>
   (\<forall>resp w'. upload_song D cwd t a al audio cover w = (Inr resp, w') \<longrightarrow>
      map fst resp = [ascii ''id'', ascii ''audioUrl'', ascii ''coverUrl''] \<and>
      (case cover of
         None \<Rightarrow> map_of resp (ascii ''coverUrl'') = Some VNone
       | Some c \<Rightarrow>
           map_of resp (ascii ''coverUrl'') =
             Some (VStr (ascii ''/media/covers/'' @ safe_name (timestamp_at w (clock_reads w + 1)) c)) \<and>
           map_of (files w')
             (os_path_join (COVER_DIR cwd) (safe_name (timestamp_at w (clock_reads w + 1)) c)) =
             Some (content c)))"
proof (intro conjI allI impI)
  assume "(\<forall>p. \<not> unwritable w p) \<and>
    (\<forall>f. \<exists>i s'. create_document D (ascii ''song'') f (store w) = (Inr i, s'))"
  then show "\<exists>resp w'. upload_song D cwd t a al audio cover w = (Inr resp, w')"
    using upload_song_returns [of w D cwd t a al audio cover] by blast
next
  fix resp w'
  assume r: "upload_song D cwd t a al audio cover w = (Inr resp, w')"
  from upload_song_Inr [OF r] obtain new_id cover_url w3 where
    u: "save_cover cwd cover
             (w\<lparr>clock_reads := clock_reads w + 1,
                files := AList.update
                  (os_path_join (AUDIO_DIR cwd) (safe_name (timestamp_at w (clock_reads w)) audio))
                  (content audio) (files w)\<rparr>) = (Inr cover_url, w3)"
       "w' = w3\<lparr>store := store w'\<rparr>"
       "resp = [(ascii ''id'', VStr new_id),
                (ascii ''audioUrl'',
                 VStr (ascii ''/media/audio/'' @ safe_name (timestamp_at w (clock_reads w)) audio)),
                (ascii ''coverUrl'', opt_str cover_url)]"
    by blast
  have f: "files w' = files w3"
    using u(2) by (metis world.select_convs(2) world.surjective world.update_convs(1))
  show "map fst resp = [ascii ''id'', ascii ''audioUrl'', ascii ''coverUrl'']"
    using u(3) by simp
  show "case cover of
         None \<Rightarrow> map_of resp (ascii ''coverUrl'') = Some VNone
       | Some c \<Rightarrow>
           map_of resp (ascii ''coverUrl'') =
             Some (VStr (ascii ''/media/covers/'' @ safe_name (timestamp_at w (clock_reads w + 1)) c)) \<and>
           map_of (files w')
             (os_path_join (COVER_DIR cwd) (safe_name (timestamp_at w (clock_reads w + 1)) c)) =
             Some (content c)"
    using save_cover_Inr [OF u(1)] u(3) f
    by (auto simp: opt_str_def ascii_eq_iff split: option.splits)
qed

lemma utc_world_accepts:
  "(\<forall>p. \<not> unwritable utc_world p) \<and>
   (\<forall>f. \<exists>i s'. create_document mem_ops (ascii ''song'') f (store utc_world) = (Inr i, s'))"
  by (simp add: utc_world_def mem_ops_def mem_create_def Let_def)

lemma cover_name_in_utc:
  "safe_name (timestamp_at utc_world (clock_reads utc_world + 1)) cover_file =
     ascii ''1700000001_c_d.png''"
  by (simp add: safe_name_def timestamp_at_def int_of_micros_def py_str_int_def
      replace_spaces_def utc_world_def cover_file_def dec_nat.simps ascii_def)

theorem upload_song_cover_url_witness:
  "(\<forall>p. \<not> unwritable utc_world p) \<and>
   (\<forall>f. \<exists>i s'. create_document mem_ops (ascii ''song'') f (store utc_world) = (Inr i, s')) \<and>
   (\<exists>resp w'. upload_song mem_ops (ascii ''/app'') (ascii ''A'') (ascii ''B'') None audio_file
       (Some cover_file) utc_world = (Inr resp, w') \<and>
      map fst resp = [ascii ''id'', ascii ''audioUrl'', ascii ''coverUrl''] \<and>
      map_of resp (ascii ''coverUrl'') = Some (VStr (ascii ''/media/covers/1700000001_c_d.png'')) \<and>
      map_of (files w') (os_path_join (COVER_DIR (ascii ''/app'')) (ascii ''1700000001_c_d.png'')) =
        Some (content cover_file)) \<and>
   (\<exists>resp w'. upload_song mem_ops (ascii ''/app'') (ascii ''A'') (ascii ''B'') None audio_file
       None utc_world = (Inr resp, w') \<and>
      map_of resp (ascii ''coverUrl'') = Some VNone)"
proof -
  note a = utc_world_accepts
  have 1: "\<exists>resp w'. upload_song mem_ops (ascii ''/app'') (ascii ''A'') (ascii ''B'') None audio_file
       (Some cover_file) utc_world = (Inr resp, w') \<and>
      map fst resp = [ascii ''id'', ascii ''audioUrl'', ascii ''coverUrl''] \<and>
      map_of resp (ascii ''coverUrl'') = Some (VStr (ascii ''/media/covers/1700000001_c_d.png'')) \<and>
      map_of (files w') (os_path_join (COVER_DIR (ascii ''/app'')) (ascii ''1700000001_c_d.png'')) =
        Some (content cover_file)"
    using a cover_name_in_utc
      upload_song_cover_url [of utc_world mem_ops "ascii ''/app''" "ascii ''A''" "ascii ''B''"
        None audio_file "Some cover_file"]
    by (simp add: ascii_def) blast
  have 2: "\<exists>resp w'. upload_song mem_ops (ascii ''/app'') (ascii ''A'') (ascii ''B'') None audio_file
       None utc_world = (Inr resp, w') \<and>
      map_of resp (ascii ''coverUrl'') = Some VNone"
    using a
      upload_song_cover_url [of utc_world mem_ops "ascii ''/app''" "ascii ''A''" "ascii ''B''"
        None audio_file None]
    by simp blast
  from a 1 2 show ?thesis by blast
qed

section \<open>Title and artist\<close>

text \<open>
  C6, as stated, fails on \<open>POST /songs\<close>: the request whose \<open>title\<close> and \<open>artist\<close>
  are the empty string is accepted with status 200, and the document with the empty
  title and artist is stored.
\<close>

theorem empty_title_counterexample:
  "title untitled_request = [] \<and> artist untitled_request = [] \<and>
   create_song mem_ops untitled_request no_songs =
     (Inr [(ascii ''id'', VStr (ascii ''0''))],
      \<lparr>mem_docs = [(ascii ''song'',
          [(ascii ''title'', VStr []), (ascii ''artist'', VStr []), (ascii ''album'', VNone),
           (ascii ''coverUrl'', VNone), (ascii ''audioUrl'', VStr (ascii ''http://x/y.mp3'')),
           (ascii ''duration'', VNone), (ascii ''created_at'', VDatetime 0),
           (ascii ''_id'', VObjectId (ascii ''0''))])],
       mem_next = 1\<rparr>) \<and>
   status_code (fst (create_song mem_ops untitled_request no_songs)) = 200"
  by (simp add: create_song_def untitled_request_def song_request_def mem_ops_def mem_create_def
      no_songs_def dec_nat_0 Let_def model_dump_def opt_str_def ascii_def)

lemma mem_create_untitled_request:
  "create_document mem_ops (ascii ''song'') untitled_request no_songs =
     (Inr (ascii ''0''),
      \<lparr>mem_docs = [(ascii ''song'', model_dump untitled_request @
          [(ascii ''created_at'', VDatetime 0), (ascii ''_id'', VObjectId (ascii ''0''))])],
       mem_next = 1\<rparr>)"
  by (simp add: mem_ops_def mem_create_def no_songs_def dec_nat_0 Let_def)

text \<open>The form binding refuses an empty title or artist and passes on any other.\<close>

lemma upload_song_form_refused:
  "title_field = None \<or> title_field = Some [] \<or> artist_field = None \<or> artist_field = Some [] \<Longrightarrow>
   upload_song_form D cwd title_field artist_field album_field audio cover w =
     (Inl RequestValidationError, w)"
  by (auto simp: upload_song_form_def form_value_def split: option.splits)

lemma upload_song_form_bound:
  "t \<noteq> [] \<Longrightarrow> a \<noteq> [] \<Longrightarrow>
   upload_song_form D cwd (Some t) (Some a) album_field audio cover w =
     upload_song D cwd t a (form_value album_field) audio cover w"
  by (simp add: upload_song_form_def form_value_def)

lemma upload_song_form_Inr:
  assumes "upload_song_form D cwd title_field artist_field album_field audio cover w = (Inr resp, w')"
  shows "\<exists>t a. title_field = Some t \<and> artist_field = Some a \<and> t \<noteq> [] \<and> a \<noteq> [] \<and>
           upload_song D cwd t a (form_value album_field) audio cover w = (Inr resp, w')"
  using assms
  by (auto simp: upload_song_form_def form_value_def split: option.splits if_splits)

lemma upload_song_passes_on:
  assumes r: "upload_song D cwd t a al audio cover w = (Inr resp, w')"
  shows "\<exists>f new_id. title f = t \<and> artist f = a \<and>
           create_document D (ascii ''song'') f (store w) = (Inr new_id, store w')"
proof -
  from upload_song_Inr [OF r] obtain new_id cover_url w3 where
    u: "save_cover cwd cover
             (w\<lparr>clock_reads := clock_reads w + 1,
                files := AList.update
                  (os_path_join (AUDIO_DIR cwd) (safe_name (timestamp_at w (clock_reads w)) audio))
                  (content audio) (files w)\<rparr>) = (Inr cover_url, w3)"
       "create_document D (ascii ''song'')
             \<lparr>title = t, artist = a, album = al, coverUrl = cover_url,
              audioUrl = Some (ascii ''/media/audio/'' @ safe_name (timestamp_at w (clock_reads w)) audio),
              duration = None\<rparr> (store w3) = (Inr new_id, store w')"
    by blast
  have "store w3 = store w"
    using save_cover_Inr [OF u(1)] by simp
  with u(2) show ?thesis
    by (metis song_fields.select_convs(1) song_fields.select_convs(2))
qed

lemma upload_form_in_utc:
  "fst (upload_song_form mem_ops (ascii ''/app'') (Some (ascii ''A'')) (Some (ascii ''B'')) None
          audio_file None utc_world) =
     Inr [(ascii ''id'', VStr (ascii ''0'')),
          (ascii ''audioUrl'', VStr (ascii ''/media/audio/1700000000_a_b.mp3'')),
          (ascii ''coverUrl'', VNone)]"
  by (simp add: upload_song_form_def form_value_def upload_song_def utcnow_timestamp_def
      timestamp_at_def int_of_micros_def
      write_file_def save_cover_def Song_def Let_def safe_name_def py_str_int_def
      replace_spaces_def os_path_join_def AUDIO_DIR_def COVER_DIR_def UPLOAD_DIR_def
      utc_world_def audio_file_def mem_ops_def mem_create_def no_songs_def
      opt_str_def dec_nat.simps ascii_def)

text \<open>
  C6, amended. \<open>title\<close> and \<open>artist\<close> are required text; they are non-empty on
  \<open>POST /songs/upload\<close> and may be empty on \<open>POST /songs\<close>. On \<open>POST /songs\<close>:
  whenever the handler returns, the song handed to the store is the request itself,
  with its title and artist, and a request with a non-empty \<open>audioUrl\<close> that the
  store accepts is answered with the new identifier whatever its title and artist
  are. On \<open>POST /songs/upload\<close>: a form whose title or artist is missing or the
  empty string is refused with status 422 and nothing is written or stored; and
  whenever the upload returns, the song handed to the store has the title and the
  artist of the form, both non-empty.
\<close>

theorem title_artist_required:
  "(\<forall>resp s'. create_song D song s = (Inr resp, s') \<longrightarrow>
      (\<exists>new_id. create_document D (ascii ''song'') song s = (Inr new_id, s') \<and>
         resp = [(ascii ''id'', VStr new_id)])) \<and>
   (\<forall>new_id s'. truthy (audioUrl song) \<and>
        create_document D (ascii ''song'') song s = (Inr new_id, s') \<longrightarrow>
      create_song D song s = (Inr [(ascii ''id'', VStr new_id)], s')) \<and>
   (title_field = None \<or> title_field = Some [] \<or> artist_field = None \<or> artist_field = Some [] \<longrightarrow>
      upload_song_form D cwd title_field artist_field album_field audio cover w =
        (Inl RequestValidationError, w) \<and>
      status_code (fst (upload_song_form D cwd title_field artist_field album_field audio cover w)) = 422) \<and>
   (\<forall>resp w'. upload_song_form D cwd title_field artist_field album_field audio cover w = (Inr resp, w') \<longrightarrow>
      (\<exists>f new_id. title_field = Some (title f) \<and> artist_field = Some (artist f) \<and>
         title f \<noteq> [] \<and> artist f \<noteq> [] \<and>
         create_document D (ascii ''song'') f (store w) = (Inr new_id, store w')))"
proof (intro conjI allI impI)
  fix resp s'
  assume "create_song D song s = (Inr resp, s')"
  then show "\<exists>new_id. create_document D (ascii ''song'') song s = (Inr new_id, s') \<and>
         resp = [(ascii ''id'', VStr new_id)]"
    by (auto simp: create_song_def split: if_splits prod.splits sum.splits)
next
  fix new_id s'
  assume "truthy (audioUrl song) \<and>
        create_document D (ascii ''song'') song s = (Inr new_id, s')"
  then show "create_song D song s = (Inr [(ascii ''id'', VStr new_id)], s')"
    by (simp add: create_song_def)
next
  assume e: "title_field = None \<or> title_field = Some [] \<or> artist_field = None \<or> artist_field = Some []"
  show "upload_song_form D cwd title_field artist_field album_field audio cover w =
        (Inl RequestValidationError, w)"
    using upload_song_form_refused [OF e] .
  then show "status_code (fst (upload_song_form D cwd title_field artist_field album_field audio cover w)) = 422"
    by simp
next
  fix resp w'
  assume "upload_song_form D cwd title_field artist_field album_field audio cover w = (Inr resp, w')"
  from upload_song_form_Inr [OF this] obtain t a where
    b: "title_field = Some t" "artist_field = Some a" "t \<noteq> []" "a \<noteq> []"
       "upload_song D cwd t a (form_value album_field) audio cover w = (Inr resp, w')"
    by blast
  from upload_song_passes_on [OF b(5)] obtain f new_id where
    "title f = t" "artist f = a"
    "create_document D (ascii ''song'') f (store w) = (Inr new_id, store w')"
    by blast
  with b show "\<exists>f new_id. title_field = Some (title f) \<and> artist_field = Some (artist f) \<and>
         title f \<noteq> [] \<and> artist f \<noteq> [] \<and>
         create_document D (ascii ''song'') f (store w) = (Inr new_id, store w')"
    by blast
qed

theorem title_artist_required_witness:
  "title untitled_request = [] \<and> artist untitled_request = [] \<and>
   truthy (audioUrl untitled_request) \<and>
   create_document mem_ops (ascii ''song'') untitled_request no_songs =
     (Inr (ascii ''0''),
      \<lparr>mem_docs = [(ascii ''song'', model_dump untitled_request @
          [(ascii ''created_at'', VDatetime 0), (ascii ''_id'', VObjectId (ascii ''0''))])],
       mem_next = 1\<rparr>) \<and>
   create_song mem_ops untitled_request no_songs =
     (Inr [(ascii ''id'', VStr (ascii ''0''))],
      \<lparr>mem_docs = [(ascii ''song'', model_dump untitled_request @
          [(ascii ''created_at'', VDatetime 0), (ascii ''_id'', VObjectId (ascii ''0''))])],
       mem_next = 1\<rparr>) \<and>
   upload_song_form mem_ops (ascii ''/app'') (Some []) (Some (ascii ''B'')) None audio_file None
       utc_world = (Inl RequestValidationError, utc_world) \<and>
   status_code (fst (upload_song_form mem_ops (ascii ''/app'') (Some []) (Some (ascii ''B'')) None
       audio_file None utc_world)) = 422 \<and>
   (\<exists>resp w'. upload_song_form mem_ops (ascii ''/app'') (Some (ascii ''A'')) (Some (ascii ''B'')) None
        audio_file None utc_world = (Inr resp, w') \<and>
      (\<exists>f new_id. Some (ascii ''A'') = Some (title f) \<and> Some (ascii ''B'') = Some (artist f) \<and>
         title f \<noteq> [] \<and> artist f \<noteq> [] \<and>
         create_document mem_ops (ascii ''song'') f (store utc_world) = (Inr new_id, store w')))"
proof -
  have t: "title untitled_request = []" "artist untitled_request = []"
    "truthy (audioUrl untitled_request)"
    by (simp_all add: untitled_request_def song_request_def ascii_def)
  note th = title_artist_required [of mem_ops untitled_request no_songs]
  from th [of "Some []" "Some (ascii ''B'')" "ascii ''/app''" None audio_file None utc_world]
    t(3) mem_create_untitled_request
  have 1: "create_song mem_ops untitled_request no_songs =
     (Inr [(ascii ''id'', VStr (ascii ''0''))],
      \<lparr>mem_docs = [(ascii ''song'', model_dump untitled_request @
          [(ascii ''created_at'', VDatetime 0), (ascii ''_id'', VObjectId (ascii ''0''))])],
       mem_next = 1\<rparr>)"
    by blast
  from th [of "Some []" "Some (ascii ''B'')" "ascii ''/app''" None audio_file None utc_world]
  have 2: "upload_song_form mem_ops (ascii ''/app'') (Some []) (Some (ascii ''B'')) None audio_file None
       utc_world = (Inl RequestValidationError, utc_world) \<and>
     status_code (fst (upload_song_form mem_ops (ascii ''/app'') (Some []) (Some (ascii ''B'')) None
       audio_file None utc_world)) = 422"
    by blast
  obtain resp w' where
    r: "upload_song_form mem_ops (ascii ''/app'') (Some (ascii ''A'')) (Some (ascii ''B'')) None
        audio_file None utc_world = (Inr resp, w')"
    using upload_form_in_utc
    by (cases "upload_song_form mem_ops (ascii ''/app'') (Some (ascii ''A'')) (Some (ascii ''B'')) None
        audio_file None utc_world") auto
  from th [of "Some (ascii ''A'')" "Some (ascii ''B'')" "ascii ''/app''" None audio_file None utc_world] r
  have 3: "\<exists>resp w'. upload_song_form mem_ops (ascii ''/app'') (Some (ascii ''A'')) (Some (ascii ''B'')) None
        audio_file None utc_world = (Inr resp, w') \<and>
      (\<exists>f new_id. Some (ascii ''A'') = Some (title f) \<and> Some (ascii ''B'') = Some (artist f) \<and>
         title f \<noteq> [] \<and> artist f \<noteq> [] \<and>
         create_document mem_ops (ascii ''song'') f (store utc_world) = (Inr new_id, store w'))"
    by blast
  from t mem_create_untitled_request 1 2 3 show ?thesis by blast
qed

section \<open>Properties of GET /test\<close>

lemma introspect_cases:
  "introspect db r = (x, r') \<Longrightarrow>
   length (collections r') \<le> max 10 (length (collections r)) \<and>
   (db = None \<longrightarrow> x = None \<and>
      database r' = warning_sign @ ascii ''  Available but not initialized'' \<and>
      collections r' = collections r) \<and>
   (\<forall>d e. db = Some d \<and> name_attr d = AttrRaises e \<longrightarrow>
      x = Some e \<and> collections r' = collections r) \<and>
   (\<forall>d. db = Some d \<and> (\<forall>e. name_attr d \<noteq> AttrRaises e) \<longrightarrow>
      x = None \<and>
      (case list_collection_names d of
         Inl e \<Rightarrow> database r' = warning_sign @ ascii ''  Connected but Error: '' @ take 50 e \<and>
                  collections r' = collections r
       | Inr cs \<Rightarrow> database r' = check_mark @ ascii '' Connected & Working'' \<and>
                   collections r' = take 10 cs))"
  by (auto simp: introspect_def list_collections_def Let_def
      split: option.splits attr.splits sum.splits)

text \<open>
  C5. For every state of \<open>db\<close> and every environment, \<open>GET /test\<close> returns a
  response, with status 200 and at most 10 collection names. When
  \<open>list_collection_names\<close> raises, the field \<open>database\<close> is the warning text followed
  by the first 50 characters of the exception's text; when reading \<open>db.name\<close> raises,
  it is the error text followed by the first 50 characters; when nothing raises, the
  first 10 names are reported; and without a database the response says so.
\<close>

theorem test_database_never_fails:
  "\<exists>r. test_database db getenv = Inr r \<and>
        status_code (test_database db getenv) = 200 \<and>
        length (collections r) \<le> 10 \<and>
        (db = None \<longrightarrow>
           database r = warning_sign @ ascii ''  Available but not initialized'') \<and>
        (\<forall>d e. db = Some d \<and> name_attr d = AttrRaises e \<longrightarrow>
           database r = cross_mark @ ascii '' Error: '' @ take 50 e \<and> collections r = []) \<and>
        (\<forall>d e. db = Some d \<and> (\<forall>x. name_attr d \<noteq> AttrRaises x) \<and>
             list_collection_names d = Inl e \<longrightarrow>
           database r = warning_sign @ ascii ''  Connected but Error: '' @ take 50 e \<and>
           collections r = []) \<and>
        (\<forall>d cs. db = Some d \<and> (\<forall>x. name_attr d \<noteq> AttrRaises x) \<and>
             list_collection_names d = Inr cs \<longrightarrow>
           database r = check_mark @ ascii '' Connected & Working'' \<and>
           collections r = take 10 cs)"
proof -
  obtain x r' where i: "introspect db response0 = (x, r')"
    by (cases "introspect db response0") blast
  have c0: "collections response0 = []"
    by (simp add: response0_def)
  show ?thesis
    using introspect_cases [OF i] c0
    by (cases x) (auto simp: test_database_def i Let_def)
qed

theorem test_database_never_fails_witness:
  "name_attr failing_db = Attr (ascii ''music'') \<and>
   list_collection_names failing_db = Inl (replicate 60 120) \<and>
   (\<exists>r. test_database (Some failing_db) no_env = Inr r \<and>
      status_code (test_database (Some failing_db) no_env) = 200 \<and>
      length (collections r) \<le> 10 \<and>
      database r = warning_sign @ ascii ''  Connected but Error: '' @ replicate 50 120) \<and>
   name_attr broken_db = AttrRaises (replicate 60 120) \<and>
   (\<exists>r. test_database (Some broken_db) no_env = Inr r \<and>
      database r = cross_mark @ ascii '' Error: '' @ replicate 50 120) \<and>
   name_attr twelve_db = NoAttr \<and>
   list_collection_names twelve_db = Inr (replicate 12 (ascii ''c'')) \<and>
   (\<exists>r. test_database (Some twelve_db) no_env = Inr r \<and>
      collections r = replicate 10 (ascii ''c'')) \<and>
   (\<exists>r. test_database None no_env = Inr r \<and>
      database r = warning_sign @ ascii ''  Available but not initialized'')"
proof -
  have f: "name_attr failing_db = Attr (ascii ''music'')"
    "list_collection_names failing_db = Inl (replicate 60 120)"
    by (simp_all add: failing_db_def)
  have b: "name_attr broken_db = AttrRaises (replicate 60 120)"
    by (simp add: broken_db_def)
  have t: "name_attr twelve_db = NoAttr"
    "list_collection_names twelve_db = Inr (replicate 12 (ascii ''c''))"
    by (simp_all add: twelve_db_def)
  have 1: "\<exists>r. test_database (Some failing_db) no_env = Inr r \<and>
      status_code (test_database (Some failing_db) no_env) = 200 \<and>
      length (collections r) \<le> 10 \<and>
      database r = warning_sign @ ascii ''  Connected but Error: '' @ replicate 50 120"
    using test_database_never_fails [of "Some failing_db" no_env] f by auto
  have 2: "\<exists>r. test_database (Some broken_db) no_env = Inr r \<and>
      database r = cross_mark @ ascii '' Error: '' @ replicate 50 120"
    using test_database_never_fails [of "Some broken_db" no_env] b by auto
  have 3: "\<exists>r. test_database (Some twelve_db) no_env = Inr r \<and>
      collections r = replicate 10 (ascii ''c'')"
    using test_database_never_fails [of "Some twelve_db" no_env] t by auto
  have 4: "\<exists>r. test_database None no_env = Inr r \<and>
      database r = warning_sign @ ascii ''  Available but not initialized''"
    using test_database_never_fails [of None no_env] by auto
  from f b t 1 2 3 4 show ?thesis by blast
qed

end
